theory Spec2Isabelle
  imports Main "HOL-Library.Sublist"
begin

section \<open>The release-notes script \<open>release/lts/create_release_notes.py\<close>\<close>

text \<open>
  The script parses three command-line options, determines the issue that holds the
  release notes (from \<open>--issue\<close>, or from the version by a fixed chain of prefix tests),
  and prints: for the format \<open>html\<close> the download URLs and a blank line, and in every
  case the notes. Python strings are modelled as \<open>string\<close>; the only string operations
  of the script are \<open>startswith\<close> with literal prefixes, the truth value of a string and
  equality with a literal.
\<close>

subsection \<open>Values, errors and observable effects\<close>

text \<open>What a Python call may return here: \<open>None\<close> or an integer.\<close>

datatype py_value = PyNone | PyInt int

text \<open>
  The exceptions that leave \<open>main\<close>: the \<open>ValueError\<close> of line 53 with its message, and
  the \<open>SystemExit\<close> with which \<open>argparse\<close> ends the process when the required option
  \<open>--version\<close> is missing (status 2).
\<close>

datatype error = ValueError string | SystemExit int

text \<open>
  What \<open>main\<close> does to the outside, in order: a call of \<open>lts_download.print_urls\<close> with
  its \<open>version\<close>, a \<open>print\<close> of one string on standard output, a call of
  \<open>lts_issue.print_notes\<close> with its \<open>version\<close>, \<open>format\<close> and \<open>issue\<close>.
\<close>

datatype event =
    PrintUrls string
  | Print string
  | PrintNotes string string string

subsection \<open>The command line\<close>

text \<open>
  The three options as they stand on the command line, each given or not, and the
  namespace that \<open>parser.parse_args()\<close> returns: \<open>--version\<close> is required, \<open>--issue\<close> is
  \<open>None\<close> when absent, \<open>--format\<close> has the default \<open>text\<close>.
\<close>

record cli =
  opt_version :: "string option"
  opt_issue :: "string option"
  opt_format :: "string option"

record namespace =
  args_version :: string
  args_issue :: "string option"
  args_format :: string

definition parse_args :: "cli \<Rightarrow> error + namespace" where
  "parse_args argv =
     (case opt_version argv of
        None \<Rightarrow> Inl (SystemExit 2)
      | Some v \<Rightarrow>
          Inr \<lparr>args_version = v,
               args_issue = opt_issue argv,
               args_format = (case opt_format argv of None \<Rightarrow> ''text'' | Some f \<Rightarrow> f)\<rparr>)"

subsection \<open>String tests of the script\<close>

text \<open>\<open>s.startswith(p)\<close>: \<open>p\<close> is an initial segment of \<open>s\<close>.\<close>

definition startswith :: "string \<Rightarrow> string \<Rightarrow> bool" where
  "startswith s p = prefix p s"

text \<open>\<open>not issue\<close> for an optional string: true for \<open>None\<close> and for the empty string.\<close>

fun py_not :: "string option \<Rightarrow> bool" where
  "py_not None = True"
| "py_not (Some s) = (s = [])"

subsection \<open>The collaborators\<close>

text \<open>
  Modelled from the spec: the modules \<open>lts_download\<close> and \<open>lts_issue\<close> are imported by the
  script and are not part of the source at hand. The spec gives their interfaces,
  \<open>print_urls(version) -> void\<close> and \<open>print_notes(version, format, issue) -> void\<close>, both
  printing to standard output, and proposes collaborators that record their calls. Each
  is modelled by the call it receives, appended to the log of effects; what they print
  and whether they fail themselves is outside \<open>main\<close>.
\<close>

definition print_urls :: "string \<Rightarrow> event list \<Rightarrow> event list" where
  "print_urls version out = out @ [PrintUrls version]"

definition print_notes :: "string \<Rightarrow> string \<Rightarrow> string \<Rightarrow> event list \<Rightarrow> event list" where
  "print_notes version format issue out = out @ [PrintNotes version format issue]"

text \<open>The builtin \<open>print(s)\<close>: one line on standard output.\<close>

definition py_print :: "string \<Rightarrow> event list \<Rightarrow> event list" where
  "py_print s out = out @ [Print s]"

subsection \<open>\<open>main\<close>\<close>

text \<open>
  Lines 38 to 53, \<open># Determine issue number\<close>: the issue given on the command line when it
  is truthy, otherwise the first branch of the \<open>if\<close>/\<open>elif\<close> chain whose prefix test
  succeeds, otherwise the \<open>ValueError\<close>.
\<close>

definition determine_issue :: "string \<Rightarrow> string option \<Rightarrow> error + string" where
  "determine_issue version issue =
     (if py_not issue then
        (if startswith version ''2.83.'' then Inr ''#77348''
         else if startswith version ''2.93.'' then Inr ''#88449''
         else if startswith version ''3.3.'' then Inr ''#100749''
         else if startswith version ''3.6.'' then Inr ''#109399''
         else if startswith version ''4.2.'' then Inr ''#124452''
         else Inl (ValueError
           ''Specify --issue or update script to include issue number for this version''))
      else (case issue of Some s \<Rightarrow> Inr s | None \<Rightarrow> Inr []))"

text \<open>
  \<open>main\<close>, from the log of effects before the call to the log after it and the outcome:
  an exception, or the returned value. The function body ends after the call of
  \<open>print_notes\<close> without a \<open>return\<close> statement, so the value returned is \<open>None\<close>.
\<close>

definition main :: "cli \<Rightarrow> event list \<Rightarrow> event list \<times> (error + py_value)" where
  "main argv out =
     (case parse_args argv of
        Inl e \<Rightarrow> (out, Inl e)
      | Inr args \<Rightarrow>
          (case determine_issue (args_version args) (args_issue args) of
             Inl e \<Rightarrow> (out, Inl e)
           | Inr issue \<Rightarrow>
               (let out1 = (if args_format args = ''html''
                            then py_print [] (print_urls (args_version args) out)
                            else out);
                    out2 = print_notes (args_version args) (args_format args) issue out1
                in (out2, Inr PyNone))))"

text \<open>
  Lines 63 and 64, \<open>sys.exit(main())\<close>: the exit status of the process. \<open>sys.exit(None)\<close>
  is status 0 and an integer is the status itself; an exception that nobody catches ends
  the interpreter with status 1, and a \<open>SystemExit\<close> with the status it carries.
\<close>

fun sys_exit :: "py_value \<Rightarrow> int" where
  "sys_exit PyNone = 0"
| "sys_exit (PyInt n) = n"

definition script :: "cli \<Rightarrow> event list \<Rightarrow> event list \<times> int" where
  "script argv out =
     (case main argv out of
        (out', Inr r) \<Rightarrow> (out', sys_exit r)
      | (out', Inl (ValueError m)) \<Rightarrow> (out', 1)
      | (out', Inl (SystemExit c)) \<Rightarrow> (out', c))"

subsection \<open>The lookup table in the words of the specification\<close>

text \<open>
  The specification describes the chain of prefix tests as an ordered list of pairs of a
  prefix and an issue, searched in order, the first matching prefix deciding.
\<close>

definition spec_issue_table :: "(string \<times> string) list" where
  "spec_issue_table =
     [(''2.83.'', ''#77348''), (''2.93.'', ''#88449''), (''3.3.'', ''#100749''),
      (''3.6.'', ''#109399''), (''4.2.'', ''#124452'')]"

fun spec_first_match :: "(string \<times> string) list \<Rightarrow> string \<Rightarrow> string option" where
  "spec_first_match [] v = None"
| "spec_first_match ((p, i) # t) v = (if startswith v p then Some i else spec_first_match t v)"

text \<open>The events a call of \<open>main\<close> adds to a log that held \<open>out\<close> before.\<close>

definition added :: "event list \<Rightarrow> event list \<times> 'a \<Rightarrow> event list" where
  "added out r = drop (length out) (fst r)"

text \<open>The calls of \<open>lts_issue.print_notes\<close> among the events.\<close>

fun is_print_notes :: "event \<Rightarrow> bool" where
  "is_print_notes (PrintNotes v f i) = True"
| "is_print_notes e = False"

text \<open>The message of the \<open>ValueError\<close> of line 53.\<close>

abbreviation no_issue_message :: string where
  "no_issue_message \<equiv>
     ''Specify --issue or update script to include issue number for this version''"

section \<open>Basic facts\<close>

lemma determine_issue_first_match:
  "determine_issue v None =
     (case spec_first_match spec_issue_table v of
        Some i \<Rightarrow> Inr i
      | None \<Rightarrow> Inl (ValueError no_issue_message))"
  by (simp add: determine_issue_def spec_issue_table_def)

lemma determine_issue_empty: "determine_issue v (Some []) = determine_issue v None"
  by (simp add: determine_issue_def)

lemma determine_issue_given: "s \<noteq> [] \<Longrightarrow> determine_issue v (Some s) = Inr s"
  by (simp add: determine_issue_def)

lemma main_resolved:
  "determine_issue v (opt_issue argv) = Inr i \<Longrightarrow> opt_version argv = Some v \<Longrightarrow>
   main argv out =
     (out @ (if opt_format argv = Some ''html'' then [PrintUrls v, Print []] else [])
          @ [PrintNotes v (case opt_format argv of None \<Rightarrow> ''text'' | Some f \<Rightarrow> f) i],
      Inr PyNone)"
  by (simp add: main_def parse_args_def print_urls_def print_notes_def py_print_def
      split: option.splits)

lemma main_unresolved:
  "determine_issue v (opt_issue argv) = Inl e \<Longrightarrow> opt_version argv = Some v \<Longrightarrow>
   main argv out = (out, Inl e)"
  by (simp add: main_def parse_args_def)

lemma main_no_version: "opt_version argv = None \<Longrightarrow> main argv out = (out, Inl (SystemExit 2))"
  by (simp add: main_def parse_args_def)

lemma main_appends: "fst (main argv out) = out @ added out (main argv out)"
  by (simp add: main_def added_def print_urls_def print_notes_def py_print_def
      split: sum.splits)

lemma determine_issue_error:
  "determine_issue v iss = Inl e \<Longrightarrow> e = ValueError no_issue_message \<and> py_not iss"
  by (auto simp: determine_issue_def split: if_splits option.splits)

lemma determine_issue_nonempty: "determine_issue v iss = Inr i \<Longrightarrow> i \<noteq> []"
  by (cases iss) (auto simp: determine_issue_def split: if_splits)

lemma startswith_append: "startswith v p \<Longrightarrow> \<exists>r. v = p @ r"
  by (auto simp: startswith_def prefix_def)

lemma spec_issue_table_cases:
  "(p, i) \<in> set spec_issue_table \<Longrightarrow>
   (p = ''2.83.'' \<and> i = ''#77348'') \<or> (p = ''2.93.'' \<and> i = ''#88449'') \<or>
   (p = ''3.3.'' \<and> i = ''#100749'') \<or> (p = ''3.6.'' \<and> i = ''#109399'') \<or>
   (p = ''4.2.'' \<and> i = ''#124452'')"
  by (simp add: spec_issue_table_def)

lemma first_match_2_83: "spec_first_match spec_issue_table (''2.83.'' @ r) = Some ''#77348''"
  by (simp add: spec_issue_table_def startswith_def)

lemma first_match_2_93: "spec_first_match spec_issue_table (''2.93.'' @ r) = Some ''#88449''"
  by (simp add: spec_issue_table_def startswith_def)

lemma first_match_3_3: "spec_first_match spec_issue_table (''3.3.'' @ r) = Some ''#100749''"
  by (simp add: spec_issue_table_def startswith_def)

lemma first_match_3_6: "spec_first_match spec_issue_table (''3.6.'' @ r) = Some ''#109399''"
  by (simp add: spec_issue_table_def startswith_def)

lemma first_match_4_2: "spec_first_match spec_issue_table (''4.2.'' @ r) = Some ''#124452''"
  by (simp add: spec_issue_table_def startswith_def)

lemma first_match_known:
  assumes "(p, i) \<in> set spec_issue_table" and "startswith v p"
  shows "spec_first_match spec_issue_table v = Some i"
proof -
  from assms(2) obtain r where v: "v = p @ r"
    using startswith_append by blast
  from spec_issue_table_cases [OF assms(1)] show ?thesis
  proof (elim disjE conjE)
    assume "p = ''2.83.''" "i = ''#77348''"
    then show ?thesis using first_match_2_83 [of r] v by simp
  next
    assume "p = ''2.93.''" "i = ''#88449''"
    then show ?thesis using first_match_2_93 [of r] v by simp
  next
    assume "p = ''3.3.''" "i = ''#100749''"
    then show ?thesis using first_match_3_3 [of r] v by simp
  next
    assume "p = ''3.6.''" "i = ''#109399''"
    then show ?thesis using first_match_3_6 [of r] v by simp
  next
    assume "p = ''4.2.''" "i = ''#124452''"
    then show ?thesis using first_match_4_2 [of r] v by simp
  qed
qed

lemma main_success:
  assumes "snd (main argv out) = Inr r"
  obtains v i where "opt_version argv = Some v" "determine_issue v (opt_issue argv) = Inr i"
proof (cases "opt_version argv")
  case None
  with assms show ?thesis by (simp add: main_no_version)
next
  case (Some v)
  show ?thesis
  proof (cases "determine_issue v (opt_issue argv)")
    case (Inl e)
    with Some assms show ?thesis by (simp add: main_unresolved)
  next
    case (Inr i)
    with Some show ?thesis by (rule that)
  qed
qed

lemma main_failure:
  assumes "snd (main argv out) = Inl e"
  shows "fst (main argv out) = out"
proof (cases "opt_version argv")
  case None
  then show ?thesis by (simp add: main_no_version)
next
  case (Some v)
  show ?thesis
  proof (cases "determine_issue v (opt_issue argv)")
    case (Inl e')
    with Some show ?thesis by (simp add: main_unresolved)
  next
    case (Inr i)
    from main_resolved [OF Inr Some, of out] assms show ?thesis by simp
  qed
qed

section \<open>Resolving the issue\<close>

text \<open>
  C1: with no \<open>--issue\<close> on the command line, a version that starts with one of the five
  prefixes \<open>2.83.\<close>, \<open>2.93.\<close>, \<open>3.3.\<close>, \<open>3.6.\<close>, \<open>4.2.\<close> is resolved to the issue
  paired with that prefix (\<open>#77348\<close>, \<open>#88449\<close>, \<open>#100749\<close>, \<open>#109399\<close>, \<open>#124452\<close>): this
  is what the first-match search of the ordered table returns, and it is the issue with
  which \<open>main\<close> calls \<open>print_notes\<close>, returning without an exception.
\<close>

theorem version_prefix_issue:
  assumes "(p, i) \<in> set spec_issue_table" and "startswith v p"
  shows "spec_first_match spec_issue_table v = Some i \<and>
         main \<lparr>opt_version = Some v, opt_issue = None, opt_format = f\<rparr> out =
           (out @ (if f = Some ''html'' then [PrintUrls v, Print []] else [])
                @ [PrintNotes v (case f of None \<Rightarrow> ''text'' | Some x \<Rightarrow> x) i],
            Inr PyNone)"
proof -
  have fm: "spec_first_match spec_issue_table v = Some i"
    using assms by (rule first_match_known)
  then have "determine_issue v None = Inr i"
    by (simp add: determine_issue_first_match)
  then show ?thesis
    using fm main_resolved [of v "\<lparr>opt_version = Some v, opt_issue = None, opt_format = f\<rparr>" i out]
    by simp
qed

theorem version_prefix_issue_witness:
  "(''3.3.'', ''#100749'') \<in> set spec_issue_table \<and> startswith ''3.3.2'' ''3.3.'' \<and>
   spec_first_match spec_issue_table ''3.3.2'' = Some ''#100749'' \<and>
   main \<lparr>opt_version = Some ''3.3.2'', opt_issue = None, opt_format = None\<rparr> [] =
     ([PrintNotes ''3.3.2'' ''text'' ''#100749''], Inr PyNone)"
proof -
  have a: "(''3.3.'', ''#100749'') \<in> set spec_issue_table"
    by (simp add: spec_issue_table_def)
  have b: "startswith ''3.3.2'' ''3.3.''"
    by (simp add: startswith_def)
  from version_prefix_issue [OF a b, of None "[]"] a b show ?thesis
    by simp
qed

text \<open>
  C2: with no \<open>--issue\<close> on the command line, a version that starts with none of the five
  prefixes makes \<open>main\<close> raise its error (the \<open>ValueError\<close> of line 53, the one error kind
  that the specification calls \<open>ConfigurationError\<close>); the log of effects is left as it
  was, so neither collaborator has been called.
\<close>

theorem unknown_version_raises:
  assumes "\<not> startswith v ''2.83.''" and "\<not> startswith v ''2.93.''"
    and "\<not> startswith v ''3.3.''" and "\<not> startswith v ''3.6.''"
    and "\<not> startswith v ''4.2.''"
  shows "main \<lparr>opt_version = Some v, opt_issue = None, opt_format = f\<rparr> out =
           (out, Inl (ValueError no_issue_message)) \<and>
         added out (main \<lparr>opt_version = Some v, opt_issue = None, opt_format = f\<rparr> out) = [] \<and>
         spec_first_match spec_issue_table v = None"
proof -
  from assms have fm: "spec_first_match spec_issue_table v = None"
    by (simp add: spec_issue_table_def)
  then have "determine_issue v None = Inl (ValueError no_issue_message)"
    by (simp add: determine_issue_first_match)
  then have "main \<lparr>opt_version = Some v, opt_issue = None, opt_format = f\<rparr> out =
      (out, Inl (ValueError no_issue_message))"
    using main_unresolved [of v "\<lparr>opt_version = Some v, opt_issue = None, opt_format = f\<rparr>"]
    by simp
  with fm show ?thesis by (simp add: added_def)
qed

theorem unknown_version_raises_witness:
  "\<not> startswith ''9.9.9'' ''2.83.'' \<and> \<not> startswith ''9.9.9'' ''2.93.'' \<and>
   \<not> startswith ''9.9.9'' ''3.3.'' \<and> \<not> startswith ''9.9.9'' ''3.6.'' \<and>
   \<not> startswith ''9.9.9'' ''4.2.'' \<and>
   main \<lparr>opt_version = Some ''9.9.9'', opt_issue = None, opt_format = None\<rparr> [] =
     ([], Inl (ValueError no_issue_message))"
proof -
  have a: "\<not> startswith ''9.9.9'' ''2.83.''" "\<not> startswith ''9.9.9'' ''2.93.''"
    "\<not> startswith ''9.9.9'' ''3.3.''" "\<not> startswith ''9.9.9'' ''3.6.''"
    "\<not> startswith ''9.9.9'' ''4.2.''"
    by (simp_all add: startswith_def)
  from unknown_version_raises [OF a, of None "[]"] a show ?thesis
    by blast
qed

text \<open>
  C3, as amended: for every version and every non-empty \<open>--issue\<close> value, that value is
  the issue passed to \<open>print_notes\<close>, whatever the version, also when a prefix of the
  table matches.
\<close>

theorem given_issue_verbatim:
  assumes "s \<noteq> []"
  shows "main \<lparr>opt_version = Some v, opt_issue = Some s, opt_format = f\<rparr> out =
           (out @ (if f = Some ''html'' then [PrintUrls v, Print []] else [])
                @ [PrintNotes v (case f of None \<Rightarrow> ''text'' | Some x \<Rightarrow> x) s],
            Inr PyNone)"
  using main_resolved [of v "\<lparr>opt_version = Some v, opt_issue = Some s, opt_format = f\<rparr>" s out]
    determine_issue_given [OF assms, of v]
  by simp

theorem given_issue_verbatim_witness:
  "''#1'' \<noteq> [] \<and>
   main \<lparr>opt_version = Some ''3.6.0'', opt_issue = Some ''#1'', opt_format = Some ''html''\<rparr> [] =
     ([PrintUrls ''3.6.0'', Print [], PrintNotes ''3.6.0'' ''html'' ''#1''], Inr PyNone)"
proof -
  have a: "''#1'' \<noteq> []" by simp
  from given_issue_verbatim [OF a, of "''3.6.0''" "Some ''html''" "[]"] a show ?thesis
    by simp
qed

text \<open>
  The empty string is a value of \<open>--issue\<close> that is not passed on: with version \<open>3.6.0\<close>
  and \<open>--issue ""\<close> the notes are requested for \<open>#109399\<close>, the issue of the table.
\<close>

theorem empty_issue_not_verbatim:
  "fst (main \<lparr>opt_version = Some ''3.6.0'', opt_issue = Some [], opt_format = Some ''html''\<rparr> []) =
     [PrintUrls ''3.6.0'', Print [], PrintNotes ''3.6.0'' ''html'' ''#109399''] \<and>
   PrintNotes ''3.6.0'' ''html'' [] \<notin>
     set (fst (main \<lparr>opt_version = Some ''3.6.0'', opt_issue = Some [], opt_format = Some ''html''\<rparr> []))"
proof -
  have "determine_issue ''3.6.0'' (Some []) = Inr ''#109399''"
    by (simp add: determine_issue_def startswith_def)
  then have "main \<lparr>opt_version = Some ''3.6.0'', opt_issue = Some [], opt_format = Some ''html''\<rparr> [] =
      ([PrintUrls ''3.6.0'', Print [], PrintNotes ''3.6.0'' ''html'' ''#109399''], Inr PyNone)"
    using main_resolved [of "''3.6.0''"
        "\<lparr>opt_version = Some ''3.6.0'', opt_issue = Some [], opt_format = Some ''html''\<rparr>"
        "''#109399''" "[]"]
    by simp
  then show ?thesis by simp
qed

text \<open>
  C8: an empty \<open>--issue\<close> is treated exactly as an absent one: \<open>main\<close> gives the same
  result for both; with the empty issue the outcome is decided by the first-match search
  of the table, the error for a version without entry and the issue of the table
  otherwise; and no call of \<open>print_notes\<close> that \<open>main\<close> adds has the empty string as its
  issue.
\<close>

theorem empty_issue_as_absent:
  "main (argv\<lparr>opt_issue := Some []\<rparr>) out = main (argv\<lparr>opt_issue := None\<rparr>) out \<and>
   main \<lparr>opt_version = Some v, opt_issue = Some [], opt_format = f\<rparr> out =
     (case spec_first_match spec_issue_table v of
        None \<Rightarrow> (out, Inl (ValueError no_issue_message))
      | Some i \<Rightarrow>
          (out @ (if f = Some ''html'' then [PrintUrls v, Print []] else [])
               @ [PrintNotes v (case f of None \<Rightarrow> ''text'' | Some x \<Rightarrow> x) i],
           Inr PyNone)) \<and>
   (\<forall>v' f'. PrintNotes v' f' [] \<notin> set (added out (main (argv\<lparr>opt_issue := Some []\<rparr>) out)))"
proof (intro conjI allI)
  show "main (argv\<lparr>opt_issue := Some []\<rparr>) out = main (argv\<lparr>opt_issue := None\<rparr>) out"
  proof (cases "opt_version argv")
    case None
    then show ?thesis by (simp add: main_no_version)
  next
    case (Some v)
    show ?thesis
    proof (cases "determine_issue v None")
      case (Inl e)
      with Some show ?thesis by (simp add: main_unresolved determine_issue_empty)
    next
      case (Inr i)
      with Some show ?thesis by (simp add: main_resolved determine_issue_empty)
    qed
  qed
next
  let ?a = "\<lparr>opt_version = Some v, opt_issue = Some [], opt_format = f\<rparr>"
  show "main ?a out =
     (case spec_first_match spec_issue_table v of
        None \<Rightarrow> (out, Inl (ValueError no_issue_message))
      | Some i \<Rightarrow>
          (out @ (if f = Some ''html'' then [PrintUrls v, Print []] else [])
               @ [PrintNotes v (case f of None \<Rightarrow> ''text'' | Some x \<Rightarrow> x) i],
           Inr PyNone))"
  proof (cases "spec_first_match spec_issue_table v")
    case None
    then have "determine_issue v (opt_issue ?a) = Inl (ValueError no_issue_message)"
      by (simp add: determine_issue_empty determine_issue_first_match)
    from main_unresolved [OF this, of out] None show ?thesis by simp
  next
    case (Some i)
    then have "determine_issue v (opt_issue ?a) = Inr i"
      by (simp add: determine_issue_empty determine_issue_first_match)
    from main_resolved [OF this, of out] Some show ?thesis by simp
  qed
next
  fix v' f'
  let ?a = "argv\<lparr>opt_issue := Some []\<rparr>"
  show "PrintNotes v' f' [] \<notin> set (added out (main ?a out))"
  proof (cases "opt_version ?a")
    case None
    then show ?thesis by (simp add: main_no_version added_def)
  next
    case (Some v)
    show ?thesis
    proof (cases "determine_issue v (opt_issue ?a)")
      case (Inl e)
      from main_unresolved [OF Inl Some, of out] show ?thesis by (simp add: added_def)
    next
      case (Inr i)
      then have "i \<noteq> []" by (rule determine_issue_nonempty)
      with main_resolved [OF Inr Some, of out] show ?thesis
        by (auto simp: added_def)
    qed
  qed
qed

section \<open>Printing\<close>

text \<open>
  C4, as amended: for every invocation with format \<open>html\<close> that does not fail, \<open>main\<close> adds
  to the log exactly the call of \<open>print_urls\<close> with the version, then the blank line,
  then the call of \<open>print_notes\<close>; for every invocation with any other format,
  everything \<open>main\<close> adds to the log is a call of \<open>print_notes\<close>, so \<open>print_urls\<close> is
  never called and no blank line is printed.
\<close>

theorem urls_before_notes:
  "(opt_format argv = Some ''html'' \<longrightarrow>
      (\<forall>r. snd (main argv out) = Inr r \<longrightarrow>
        (\<exists>v i. opt_version argv = Some v \<and> determine_issue v (opt_issue argv) = Inr i \<and>
           fst (main argv out) = out @ [PrintUrls v, Print [], PrintNotes v ''html'' i]))) \<and>
   (opt_format argv \<noteq> Some ''html'' \<longrightarrow>
      list_all is_print_notes (added out (main argv out)))"
proof (intro conjI impI allI)
  fix r
  assume f: "opt_format argv = Some ''html''" and ok: "snd (main argv out) = Inr r"
  from ok obtain v i where vi: "opt_version argv = Some v"
      "determine_issue v (opt_issue argv) = Inr i"
    by (rule main_success)
  from main_resolved [OF vi(2) vi(1), of out] f
  have "fst (main argv out) = out @ [PrintUrls v, Print [], PrintNotes v ''html'' i]"
    by simp
  with vi show "\<exists>v i. opt_version argv = Some v \<and> determine_issue v (opt_issue argv) = Inr i \<and>
      fst (main argv out) = out @ [PrintUrls v, Print [], PrintNotes v ''html'' i]"
    by blast
next
  assume f: "opt_format argv \<noteq> Some ''html''"
  show "list_all is_print_notes (added out (main argv out))"
  proof (cases "opt_version argv")
    case None
    then show ?thesis by (simp add: main_no_version added_def)
  next
    case (Some v)
    show ?thesis
    proof (cases "determine_issue v (opt_issue argv)")
      case (Inl e)
      with Some show ?thesis by (simp add: main_unresolved added_def)
    next
      case (Inr i)
      from main_resolved [OF Inr Some, of out] f show ?thesis
        by (simp add: added_def)
    qed
  qed
qed

theorem urls_before_notes_witness:
  "fst (main \<lparr>opt_version = Some ''3.6.0'', opt_issue = Some ''#1'', opt_format = Some ''html''\<rparr> []) =
     [PrintUrls ''3.6.0'', Print [], PrintNotes ''3.6.0'' ''html'' ''#1''] \<and>
   list_all is_print_notes
     (added [] (main \<lparr>opt_version = Some ''3.6.0'', opt_issue = Some ''#1'', opt_format = Some ''text''\<rparr> []))"
proof -
  let ?h = "\<lparr>opt_version = Some ''3.6.0'', opt_issue = Some ''#1'', opt_format = Some ''html''\<rparr>"
  let ?t = "\<lparr>opt_version = Some ''3.6.0'', opt_issue = Some ''#1'', opt_format = Some ''text''\<rparr>"
  have d: "determine_issue ''3.6.0'' (Some ''#1'') = Inr ''#1''"
    by (simp add: determine_issue_given)
  have ok: "snd (main ?h []) = Inr PyNone"
    using main_resolved [of "''3.6.0''" ?h "''#1''" "[]"] d by simp
  have ne: "opt_format ?t \<noteq> Some ''html''" by simp
  have "\<exists>v i. opt_version ?h = Some v \<and> determine_issue v (opt_issue ?h) = Inr i \<and>
      fst (main ?h []) = [] @ [PrintUrls v, Print [], PrintNotes v ''html'' i]"
    using urls_before_notes [of ?h "[]"] ok by simp
  then have 1: "fst (main ?h []) = [PrintUrls ''3.6.0'', Print [], PrintNotes ''3.6.0'' ''html'' ''#1'']"
    using d by auto
  have 2: "list_all is_print_notes (added [] (main ?t []))"
    using urls_before_notes [of ?t "[]"] ne by blast
  from 1 2 show ?thesis by simp
qed

text \<open>
  An invocation with format \<open>html\<close> in which \<open>print_urls\<close> is not called: version
  \<open>9.9.9\<close> without \<open>--issue\<close> raises the error before anything is printed.
\<close>

theorem html_unresolved_no_urls:
  "main \<lparr>opt_version = Some ''9.9.9'', opt_issue = None, opt_format = Some ''html''\<rparr> [] =
     ([], Inl (ValueError no_issue_message)) \<and>
   PrintUrls ''9.9.9'' \<notin>
     set (fst (main \<lparr>opt_version = Some ''9.9.9'', opt_issue = None, opt_format = Some ''html''\<rparr> []))"
proof -
  have "determine_issue ''9.9.9'' None = Inl (ValueError no_issue_message)"
    by (simp add: determine_issue_def startswith_def)
  then have "main \<lparr>opt_version = Some ''9.9.9'', opt_issue = None, opt_format = Some ''html''\<rparr> [] =
      ([], Inl (ValueError no_issue_message))"
    using main_unresolved [of "''9.9.9''"
        "\<lparr>opt_version = Some ''9.9.9'', opt_issue = None, opt_format = Some ''html''\<rparr>"]
    by simp
  then show ?thesis by simp
qed

text \<open>
  C5: on every invocation that does not fail, the events that \<open>main\<close> adds to the log
  contain exactly one call of \<open>print_notes\<close>, with the version of the command line, the
  format of the command line or \<open>text\<close> when \<open>--format\<close> is absent, and the issue that
  \<open>determine_issue\<close> returned.
\<close>

theorem notes_called_once:
  assumes "snd (main argv out) = Inr r"
  shows "\<exists>v i. opt_version argv = Some v \<and> determine_issue v (opt_issue argv) = Inr i \<and>
           filter is_print_notes (added out (main argv out)) =
             [PrintNotes v (case opt_format argv of None \<Rightarrow> ''text'' | Some f \<Rightarrow> f) i]"
proof -
  from assms obtain v i where vi: "opt_version argv = Some v"
      "determine_issue v (opt_issue argv) = Inr i"
    by (rule main_success)
  from main_resolved [OF vi(2) vi(1), of out]
  have "filter is_print_notes (added out (main argv out)) =
      [PrintNotes v (case opt_format argv of None \<Rightarrow> ''text'' | Some f \<Rightarrow> f) i]"
    by (simp add: added_def)
  with vi show ?thesis by blast
qed

theorem notes_called_once_witness:
  "snd (main \<lparr>opt_version = Some ''4.2.1'', opt_issue = None, opt_format = None\<rparr> []) = Inr PyNone \<and>
   filter is_print_notes
     (added [] (main \<lparr>opt_version = Some ''4.2.1'', opt_issue = None, opt_format = None\<rparr> [])) =
     [PrintNotes ''4.2.1'' ''text'' ''#124452'']"
proof -
  let ?a = "\<lparr>opt_version = Some ''4.2.1'', opt_issue = None, opt_format = None\<rparr>"
  have d: "determine_issue ''4.2.1'' None = Inr ''#124452''"
    by (simp add: determine_issue_def startswith_def)
  have ok: "snd (main ?a []) = Inr PyNone"
    using main_resolved [of "''4.2.1''" ?a "''#124452''" "[]"] d by simp
  from notes_called_once [OF ok] d ok show ?thesis by auto
qed

text \<open>
  C6, as amended: for every format value outside text, steam, markdown and html, \<open>main\<close>
  performs no validation of the format: its outcome, exception or returned value, is
  the one it has for the format \<open>text\<close>, and whenever it does not fail the log grows by
  the single call of \<open>print_notes\<close> with the format value unchanged, the URL branch
  being skipped.
\<close>

theorem unknown_format_passed_through:
  assumes "f \<notin> {''text'', ''steam'', ''markdown'', ''html''}"
  shows "snd (main (argv\<lparr>opt_format := Some f\<rparr>) out) =
           snd (main (argv\<lparr>opt_format := Some ''text''\<rparr>) out) \<and>
         (\<forall>r. snd (main (argv\<lparr>opt_format := Some f\<rparr>) out) = Inr r \<longrightarrow>
            (\<exists>v i. opt_version argv = Some v \<and> determine_issue v (opt_issue argv) = Inr i \<and>
               fst (main (argv\<lparr>opt_format := Some f\<rparr>) out) = out @ [PrintNotes v f i]))"
proof (cases "opt_version argv")
  case None
  then show ?thesis by (simp add: main_no_version)
next
  case (Some v)
  show ?thesis
  proof (cases "determine_issue v (opt_issue argv)")
    case (Inl e)
    with Some show ?thesis by (simp add: main_unresolved)
  next
    case (Inr i)
    from assms have nh: "f \<noteq> ''html''" by simp
    have 1: "main (argv\<lparr>opt_format := Some f\<rparr>) out = (out @ [PrintNotes v f i], Inr PyNone)"
      using main_resolved [of v "argv\<lparr>opt_format := Some f\<rparr>" i out] Inr Some nh by simp
    have 2: "main (argv\<lparr>opt_format := Some ''text''\<rparr>) out =
        (out @ [PrintNotes v ''text'' i], Inr PyNone)"
      using main_resolved [of v "argv\<lparr>opt_format := Some ''text''\<rparr>" i out] Inr Some by simp
    from 1 2 Inr Some show ?thesis by simp
  qed
qed

theorem unknown_format_passed_through_witness:
  "''xml'' \<notin> {''text'', ''steam'', ''markdown'', ''html''} \<and>
   main \<lparr>opt_version = Some ''4.2.1'', opt_issue = None, opt_format = Some ''xml''\<rparr> [] =
     ([PrintNotes ''4.2.1'' ''xml'' ''#124452''], Inr PyNone)"
proof -
  let ?a = "\<lparr>opt_version = Some ''4.2.1'', opt_issue = None, opt_format = Some ''xml''\<rparr>"
  have n: "''xml'' \<notin> {''text'', ''steam'', ''markdown'', ''html''}" by simp
  have d: "determine_issue ''4.2.1'' None = Inr ''#124452''"
    by (simp add: determine_issue_def startswith_def)
  have ok: "snd (main ?a []) = Inr PyNone"
    using main_resolved [of "''4.2.1''" ?a "''#124452''" "[]"] d by simp
  from unknown_format_passed_through [OF n, of ?a "[]"] ok
  have "\<exists>v i. opt_version ?a = Some v \<and> determine_issue v (opt_issue ?a) = Inr i \<and>
      fst (main ?a []) = [] @ [PrintNotes v ''xml'' i]"
    by simp
  with d have "fst (main ?a []) = [PrintNotes ''4.2.1'' ''xml'' ''#124452'']" by auto
  with ok n show ?thesis by (simp add: prod_eq_iff)
qed

text \<open>
  An invocation with an unrecognised format that fails: version \<open>9.9.9\<close> without
  \<open>--issue\<close> and format \<open>xml\<close> raises the error of line 53.
\<close>

theorem unknown_format_unmapped_fails:
  "snd (main \<lparr>opt_version = Some ''9.9.9'', opt_issue = None, opt_format = Some ''xml''\<rparr> []) =
     Inl (ValueError no_issue_message)"
proof -
  have "determine_issue ''9.9.9'' None = Inl (ValueError no_issue_message)"
    by (simp add: determine_issue_def startswith_def)
  then show ?thesis
    using main_unresolved [of "''9.9.9''"
        "\<lparr>opt_version = Some ''9.9.9'', opt_issue = None, opt_format = Some ''xml''\<rparr>"]
    by simp
qed

section \<open>Outcome of a call\<close>

text \<open>
  C7: the claim is that every successful invocation returns 0. Evaluated at
  \<open>--version 4.2.1\<close>: \<open>main\<close> succeeds and the value it returns is \<open>None\<close>, not the
  integer 0, against its annotation \<open>-> int\<close>; the exit status that \<open>sys.exit(main())\<close>
  makes of it is 0 all the same.
\<close>

theorem main_returns_None:
  "main \<lparr>opt_version = Some ''4.2.1'', opt_issue = None, opt_format = None\<rparr> [] =
     ([PrintNotes ''4.2.1'' ''text'' ''#124452''], Inr PyNone) \<and>
   snd (main \<lparr>opt_version = Some ''4.2.1'', opt_issue = None, opt_format = None\<rparr> []) \<noteq>
     Inr (PyInt 0) \<and>
   snd (script \<lparr>opt_version = Some ''4.2.1'', opt_issue = None, opt_format = None\<rparr> []) = 0"
proof -
  let ?a = "\<lparr>opt_version = Some ''4.2.1'', opt_issue = None, opt_format = None\<rparr>"
  have d: "determine_issue ''4.2.1'' None = Inr ''#124452''"
    by (simp add: determine_issue_def startswith_def)
  have m: "main ?a [] = ([PrintNotes ''4.2.1'' ''text'' ''#124452''], Inr PyNone)"
    using main_resolved [of "''4.2.1''" ?a "''#124452''" "[]"] d by simp
  then show ?thesis by (simp add: script_def)
qed

text \<open>
  C9: when \<open>main\<close> fails with its \<open>ValueError\<close>, the log of effects is the one from before
  the call: neither \<open>print_urls\<close> nor \<open>print_notes\<close> has been called and nothing has been
  printed. The failure is the one of line 53: no truthy issue was given and the message
  is the one of that line.
\<close>

theorem failure_prints_nothing:
  assumes "snd (main argv out) = Inl (ValueError m)"
  shows "fst (main argv out) = out \<and> added out (main argv out) = [] \<and>
         py_not (opt_issue argv) \<and> m = no_issue_message"
proof -
  from assms have 1: "fst (main argv out) = out" by (rule main_failure)
  then have 2: "added out (main argv out) = []" by (simp add: added_def)
  have 3: "py_not (opt_issue argv) \<and> m = no_issue_message"
  proof (cases "opt_version argv")
    case None
    with assms show ?thesis by (simp add: main_no_version)
  next
    case (Some v)
    show ?thesis
    proof (cases "determine_issue v (opt_issue argv)")
      case (Inl e)
      from main_unresolved [OF Inl Some, of out] assms have "e = ValueError m" by simp
      with determine_issue_error [OF Inl] show ?thesis by simp
    next
      case (Inr i)
      from main_resolved [OF Inr Some, of out] assms show ?thesis by simp
    qed
  qed
  from 1 2 3 show ?thesis by simp
qed

theorem failure_prints_nothing_witness:
  "snd (main \<lparr>opt_version = Some ''9.9.9'', opt_issue = None, opt_format = Some ''html''\<rparr>
          [Print ''earlier'']) = Inl (ValueError no_issue_message) \<and>
   fst (main \<lparr>opt_version = Some ''9.9.9'', opt_issue = None, opt_format = Some ''html''\<rparr>
          [Print ''earlier'']) = [Print ''earlier'']"
proof -
  let ?a = "\<lparr>opt_version = Some ''9.9.9'', opt_issue = None, opt_format = Some ''html''\<rparr>"
  have "determine_issue ''9.9.9'' None = Inl (ValueError no_issue_message)"
    by (simp add: determine_issue_def startswith_def)
  then have f: "snd (main ?a [Print ''earlier'']) = Inl (ValueError no_issue_message)"
    using main_unresolved [of "''9.9.9''" ?a] by simp
  from failure_prints_nothing [OF f] f show ?thesis by simp
qed

end
